theory Spec2Isabelle
  imports Complex_Main "HOL-Library.Char_ord" "HOL-Library.List_Lexorder"
begin

section \<open>Weather service: data model\<close>

text \<open>
  The embedding follows \<^verbatim>\<open>weather_service/db_utils.py\<close> and
  \<^verbatim>\<open>weather_service/utils.py\<close>.

  A naive \<^verbatim>\<open>datetime\<close> is the number of microseconds on its own time line (the
  resolution of Python's \<^verbatim>\<open>datetime\<close>), a \<^verbatim>\<open>date\<close> the number of days on it.
  Python floats are read as the real numbers they denote; rounding is not modelled.
\<close>

type_synonym datetime = int
type_synonym date = int

definition timedelta_seconds :: "int \<Rightarrow> int" where
  "timedelta_seconds n = n * 1000000"

definition timedelta_hours :: "int \<Rightarrow> int" where
  "timedelta_hours n = timedelta_seconds (n * 3600)"

datatype error =
    StorageError
  | IndexError
  | KeyError string
  | TypeError string
  | ValueError string
  | ApiRequestFailed int
  | HTTPException int string

text \<open>
  The dictionary built by \<^verbatim>\<open>fetch_weather_data\<close>; a row of the table
  \<^verbatim>\<open>realtime_weather\<close> carries the same nine columns.
\<close>

record weather_data =
  dt :: datetime
  main_condition :: string
  temp :: real
  feels_like :: real
  pressure :: real
  humidity :: real
  rain :: real
  clouds :: real
  city :: string

text \<open>
  The f-string \<^verbatim>\<open>f'Found temp: {value} but threshold is {range}'\<close> is kept as its three
  parts: the label, the observed value and the configured range.
\<close>

datatype reason_text = Found string real "real list"

record alert_event =
  alert_dt :: datetime
  alert_city :: string
  reason :: reason_text
  trigger :: string

text \<open>
  Modelled from the spec: \<^verbatim>\<open>weather_service/db_models.py\<close> is not among the sources.
  A row of \<^verbatim>\<open>daily_weather\<close> has the columns the aggregation fills, and its primary key
  is the pair (city, date): one row per (city, date).
\<close>

record daily_weather_row =
  date :: date
  daily_city :: string
  avg_temp :: real
  max_temp :: real
  min_temp :: real
  dom_condition :: string

definition primary_key :: "daily_weather_row \<Rightarrow> string \<times> date" where
  "primary_key r = (daily_city r, date r)"

text \<open>What \<^verbatim>\<open>print\<close> writes, one value per line, in order.\<close>

datatype stdout_line =
    Threshold_exceeded string string
  | Failed_to_insert string error

text \<open>The shared session: the three tables, and the process's standard output.\<close>

record state =
  realtime_weather :: "weather_data list"
  daily_weather :: "daily_weather_row list"
  alert_events :: "alert_event list"
  stdout :: "stdout_line list"

text \<open>
  Whether the database accepts a unit of work (the statement and its \<^verbatim>\<open>session.commit()\<close>)
  is decided outside the program; each such unit takes its outcome as an argument. A unit
  that fails raises and leaves the tables as they were.
\<close>

datatype outcome = Succeeds | Fails

section \<open>Ingestion and retention\<close>

definition cleanup_old_realtime_weather ::
  "outcome \<Rightarrow> datetime \<Rightarrow> state \<Rightarrow> error option \<times> state" where
  "cleanup_old_realtime_weather oc now s =
     (let cutoff_time = now - timedelta_hours 24 in
      case oc of
        Fails \<Rightarrow> (Some StorageError, s)
      | Succeeds \<Rightarrow>
          (None, s\<lparr>realtime_weather := filter (\<lambda>r. \<not> dt r < cutoff_time) (realtime_weather s)\<rparr>))"

definition insert_realtime_weather ::
  "outcome \<Rightarrow> outcome \<Rightarrow> datetime \<Rightarrow>
   datetime \<Rightarrow> string \<Rightarrow> real \<Rightarrow> real \<Rightarrow> real \<Rightarrow> real \<Rightarrow> real \<Rightarrow> real \<Rightarrow> string \<Rightarrow>
   state \<Rightarrow> error option \<times> state" where
  "insert_realtime_weather oc_cleanup oc_insert now
       dt' main_condition' temp' feels_like' pressure' humidity' rain' clouds' city' s =
     (case cleanup_old_realtime_weather oc_cleanup now s of
        (Some e, s1) \<Rightarrow> (Some e, s1)
      | (None, s1) \<Rightarrow>
          (let new_data = \<lparr>dt = dt', main_condition = main_condition', temp = temp',
                           feels_like = feels_like', pressure = pressure',
                           humidity = humidity', rain = rain', clouds = clouds',
                           city = city'\<rparr>
           in case oc_insert of
                Fails \<Rightarrow> (Some StorageError, s1)
              | Succeeds \<Rightarrow> (None, s1\<lparr>realtime_weather := realtime_weather s1 @ [new_data]\<rparr>)))"


section \<open>Thresholds\<close>

text \<open>
  The class \<^verbatim>\<open>Thresholds\<close> has six attributes, each a list: the module creates the
  instance with \<^verbatim>\<open>[lower, upper]\<close> for each. \<^verbatim>\<open>get_thresholds\<close> returns the dictionary
  with the same six keys, so the record stands for both.
\<close>

record thresholds =
  th_temp :: "real list"
  th_feels_like :: "real list"
  th_pressure :: "real list"
  th_humidity :: "real list"
  th_rain :: "real list"
  th_clouds :: "real list"

definition default_thresholds :: thresholds where
  "default_thresholds =
     \<lparr>th_temp = [0, 100], th_feels_like = [0, 100], th_pressure = [0, 1000],
      th_humidity = [0, 100], th_rain = [0, 100], th_clouds = [0, 100]\<rparr>"

definition get_thresholds :: "thresholds \<Rightarrow> thresholds" where
  "get_thresholds self = self"

definition update_thresholds ::
  "thresholds \<Rightarrow> real list \<Rightarrow> real list \<Rightarrow> real list \<Rightarrow> real list \<Rightarrow> real list \<Rightarrow> real list \<Rightarrow>
   thresholds" where
  "update_thresholds self temp' feels_like' pressure' humidity' rain' clouds' =
     self\<lparr>th_temp := temp', th_feels_like := feels_like', th_pressure := pressure',
          th_humidity := humidity', th_rain := rain', th_clouds := clouds'\<rparr>"

text \<open>
  The administrative caller (\<^verbatim>\<open>save_values\<close>) passes the edited table as keyword
  arguments, \<^verbatim>\<open>thresholds.update_thresholds(**new_data)\<close>. Python binds them to the six
  parameters before the body runs: a parameter without an argument, or an argument that
  names no parameter, raises \<^verbatim>\<open>TypeError\<close> and the object is not touched. The keyword
  arguments are a dictionary, here an association list read with \<^const>\<open>map_of\<close>.
\<close>

definition parameter_names :: "string list" where
  "parameter_names = [''temp'', ''feels_like'', ''pressure'', ''humidity'', ''rain'', ''clouds'']"

definition call_update_thresholds ::
  "thresholds \<Rightarrow> (string \<times> real list) list \<Rightarrow> error option \<times> thresholds" where
  "call_update_thresholds self kwargs =
     (case filter (\<lambda>k. k \<notin> set parameter_names) (map fst kwargs) of
        k # _ \<Rightarrow> (Some (TypeError (''unexpected keyword argument '' @ k)), self)
      | [] \<Rightarrow>
         (case (map_of kwargs ''temp'', map_of kwargs ''feels_like'', map_of kwargs ''pressure'',
                map_of kwargs ''humidity'', map_of kwargs ''rain'', map_of kwargs ''clouds'') of
            (Some t, Some f, Some p, Some h, Some r, Some c) \<Rightarrow>
              (None, update_thresholds self t f p h r c)
          | _ \<Rightarrow> (Some (TypeError ''missing required positional argument''), self)))"

definition well_ordered :: "real list \<Rightarrow> bool" where
  "well_ordered r = (case r of [lo, hi] \<Rightarrow> lo \<le> hi | _ \<Rightarrow> False)"

definition all_well_ordered :: "thresholds \<Rightarrow> bool" where
  "all_well_ordered th =
     (well_ordered (th_temp th) \<and> well_ordered (th_feels_like th) \<and>
      well_ordered (th_pressure th) \<and> well_ordered (th_humidity th) \<and>
      well_ordered (th_rain th) \<and> well_ordered (th_clouds th))"

section \<open>Alert evaluation\<close>

definition insert_alert_event ::
  "datetime \<Rightarrow> string \<Rightarrow> string \<Rightarrow> reason_text \<Rightarrow> state \<Rightarrow> state" where
  "insert_alert_event dt' city' trigger' reason' s =
     (let new_event = \<lparr>alert_dt = dt', alert_city = city', reason = reason', trigger = trigger'\<rparr>
      in s\<lparr>alert_events := alert_events s @ [new_event]\<rparr>)"

text \<open>
  The condition \<^verbatim>\<open>value < range[0] or value > range[1]\<close>. The subscript of a list that
  is too short raises \<^verbatim>\<open>IndexError\<close>; \<^verbatim>\<open>or\<close> reads its right side only when the left
  side is false.
\<close>

definition outside_range :: "real \<Rightarrow> real list \<Rightarrow> error + bool" where
  "outside_range v r =
     (case r of
        [] \<Rightarrow> Inl IndexError
      | lo # rest \<Rightarrow>
          if v < lo then Inr True
          else (case rest of [] \<Rightarrow> Inl IndexError | hi # _ \<Rightarrow> Inr (v > hi)))"

text \<open>
  One of the six blocks of \<^verbatim>\<open>check_data_against_alerts\<close>: the condition, then the
  insert and the printed line. The alert table is written here on a database that accepts
  the write.
\<close>

definition check_block ::
  "weather_data \<Rightarrow> real \<Rightarrow> real list \<Rightarrow> string \<Rightarrow> string \<Rightarrow> string \<Rightarrow> state \<Rightarrow>
   error option \<times> state" where
  "check_block wd v r trigger' label name s =
     (case outside_range v r of
        Inl e \<Rightarrow> (Some e, s)
      | Inr False \<Rightarrow> (None, s)
      | Inr True \<Rightarrow>
          (let s1 = insert_alert_event (dt wd) (city wd) trigger' (Found label v r) s
           in (None, s1\<lparr>stdout := stdout s1 @ [Threshold_exceeded name (city wd)]\<rparr>)))"

text \<open>Statements run in order; an exception ends the run with the state reached.\<close>

definition and_then ::
  "error option \<times> state \<Rightarrow> (state \<Rightarrow> error option \<times> state) \<Rightarrow> error option \<times> state" where
  "and_then m f = (case m of (Some e, s) \<Rightarrow> (Some e, s) | (None, s) \<Rightarrow> f s)"

definition check_data_against_alerts ::
  "weather_data \<Rightarrow> thresholds \<Rightarrow> state \<Rightarrow> error option \<times> state" where
  "check_data_against_alerts wd th s =
     and_then (and_then (and_then (and_then (and_then
       (check_block wd (temp wd) (th_temp th) ''Temperature'' ''temp'' ''Temperature'' s)
       (check_block wd (feels_like wd) (th_feels_like th) ''Feels Like'' ''feels like''
          ''Feels like''))
       (check_block wd (pressure wd) (th_pressure th) ''Pressure'' ''pressure'' ''Pressure''))
       (check_block wd (humidity wd) (th_humidity th) ''Humidity'' ''humidity'' ''Humidity''))
       (check_block wd (rain wd) (th_rain th) ''Rain'' ''rain'' ''Rain''))
       (check_block wd (clouds wd) (th_clouds th) ''Clouds'' ''clouds'' ''Clouds'')"

section \<open>Rate limiting\<close>

text \<open>
  \<^verbatim>\<open>request_counts\<close> maps a client address to its count and the start of its window;
  \<^verbatim>\<open>time()\<close> is a number of seconds. Of the request the wrapper reads the client's
  host only. The wrapped handler runs on a world \<open>'w\<close> of its own and returns a value.
\<close>

record request_info =
  count :: int
  timestamp :: real

type_synonym request_counts = "string \<rightharpoonup> request_info"

definition rate_limit ::
  "int \<Rightarrow> int \<Rightarrow> (string \<Rightarrow> 'w \<Rightarrow> 'a \<times> 'w) \<Rightarrow> string \<Rightarrow> real \<Rightarrow> request_counts \<times> 'w \<Rightarrow>
   (error + 'a) \<times> request_counts \<times> 'w" where
  "rate_limit limit interval func client_ip current_time st =
     (case st of (request_counts, w) \<Rightarrow>
        let request_info0 =
              (case request_counts client_ip of
                 None \<Rightarrow> \<lparr>count = 0, timestamp = current_time\<rparr>
               | Some i \<Rightarrow> i);
            request_info1 =
              (if current_time - timestamp request_info0 > of_int interval
               then request_info0\<lparr>count := 0, timestamp := current_time\<rparr>
               else request_info0);
            request_info2 = request_info1\<lparr>count := count request_info1 + 1\<rparr>;
            request_counts' = request_counts(client_ip \<mapsto> request_info2)
        in if count request_info2 > limit
           then (Inl (HTTPException 429 ''Rate limit exceeded''), request_counts', w)
           else (case func client_ip w of (r, w') \<Rightarrow> (Inr r, request_counts', w')))"

text \<open>
  A run of the decorated handler: the calls arrive one after the other, each with its
  client and the time the wrapper reads; the responses are collected in order.
\<close>

fun serve ::
  "int \<Rightarrow> int \<Rightarrow> (string \<Rightarrow> 'w \<Rightarrow> 'a \<times> 'w) \<Rightarrow> (string \<times> real) list \<Rightarrow> request_counts \<times> 'w \<Rightarrow>
   (error + 'a) list \<times> request_counts \<times> 'w" where
  "serve limit interval func [] st = ([], st)"
| "serve limit interval func ((client_ip, current_time) # calls) st =
     (case rate_limit limit interval func client_ip current_time st of
        (r, st') \<Rightarrow>
          (case serve limit interval func calls st' of (rs, st'') \<Rightarrow> (r # rs, st'')))"

definition rejected :: "error + 'a \<Rightarrow> bool" where
  "rejected r = (r = Inl (HTTPException 429 ''Rate limit exceeded''))"

section \<open>Caching with a timeout\<close>

text \<open>
  The wrapper reads two clocks: \<^verbatim>\<open>datetime.now()\<close>, the local time, when it looks the key
  up, and \<^verbatim>\<open>datetime.utcnow()\<close>, the time in UTC, when it stores a result. An instant is
  a number of microseconds in UTC; the local clock shows it shifted by the offset of the
  machine's time zone.
\<close>

definition datetime_now :: "int \<Rightarrow> datetime \<Rightarrow> datetime" where
  "datetime_now utcoffset instant = instant + utcoffset"

definition datetime_utcnow :: "datetime \<Rightarrow> datetime" where
  "datetime_utcnow instant = instant"

record 'v cache_entry =
  "value" :: 'v
  cache_timestamp :: datetime

text \<open>
  \<open>looked_up\<close> is the instant of the lookup and \<open>computed\<close> the instant at which
  the wrapped function has returned. The wrapped function runs on a world \<open>'w\<close>.
\<close>

definition cache_with_timeout ::
  "int \<Rightarrow> int \<Rightarrow> ('k \<Rightarrow> 'w \<Rightarrow> 'v \<times> 'w) \<Rightarrow> 'k \<Rightarrow> datetime \<Rightarrow> datetime \<Rightarrow>
   ('k \<rightharpoonup> 'v cache_entry) \<times> 'w \<Rightarrow> 'v \<times> ('k \<rightharpoonup> 'v cache_entry) \<times> 'w" where
  "cache_with_timeout utcoffset timeout func key looked_up computed st =
     (case st of (cache, w) \<Rightarrow>
        (case cache key of
           None \<Rightarrow>
             (case func key w of (result, w') \<Rightarrow>
                (result,
                 cache(key \<mapsto> \<lparr>value = result, cache_timestamp = datetime_utcnow computed\<rparr>),
                 w'))
         | Some entry \<Rightarrow>
             if datetime_now utcoffset looked_up - cache_timestamp entry < timedelta_seconds timeout
             then (value entry, cache, w)
             else
               (case func key w of (result, w') \<Rightarrow>
                  (result,
                   cache(key \<mapsto> \<lparr>value = result, cache_timestamp = datetime_utcnow computed\<rparr>),
                   w'))))"

section \<open>Fetching a reading\<close>













definition or_raise :: "error + 'a \<Rightarrow> ('a \<Rightarrow> error + 'b) \<Rightarrow> error + 'b" where
  "or_raise m f = (case m of Inl e \<Rightarrow> Inl e | Inr x \<Rightarrow> f x)"






section \<open>Daily aggregation\<close>

definition microseconds_per_day :: int where
  "microseconds_per_day = 86400000000"

text \<open>\<^verbatim>\<open>func.date\<close>, and \<^verbatim>\<open>datetime.combine\<close> with \<^verbatim>\<open>time.min\<close> and \<^verbatim>\<open>time.max\<close>.\<close>

definition date_of :: "datetime \<Rightarrow> date" where
  "date_of t = t div microseconds_per_day"

definition combine_min :: "date \<Rightarrow> datetime" where
  "combine_min d = d * microseconds_per_day"

definition combine_max :: "date \<Rightarrow> datetime" where
  "combine_max d = d * microseconds_per_day + (microseconds_per_day - 1)"

text \<open>
  The grouped query. The rows of one group are those of the filtered table with the
  group's city and date; no group is empty. SQL leaves the order of the groups open, here
  it is the order of \<^const>\<open>remdups\<close>. \<^verbatim>\<open>func.max\<close> of the condition strings is the
  greatest in the lexicographic order of the characters.
\<close>

definition summary_row :: "weather_data list \<Rightarrow> string \<times> date \<Rightarrow> daily_weather_row" where
  "summary_row rows g =
     (let grp = filter (\<lambda>r. (city r, date_of (dt r)) = g) rows in
      \<lparr>date = snd g,
       daily_city = fst g,
       avg_temp = sum_list (map temp grp) / real (length grp),
       max_temp = Max (set (map temp grp)),
       min_temp = Min (set (map temp grp)),
       dom_condition = Max (set (map main_condition grp))\<rparr>)"

definition aggregate_query :: "date \<Rightarrow> weather_data list \<Rightarrow> daily_weather_row list" where
  "aggregate_query today tbl =
     (let start_time = combine_min today;
          end_time = combine_max today;
          rows = filter (\<lambda>r. dt r \<ge> start_time \<and> dt r \<le> end_time) tbl
      in map (summary_row rows) (remdups (map (\<lambda>r. (city r, date_of (dt r))) rows)))"

text \<open>
  \<^verbatim>\<open>session.merge\<close>: the row with the primary key of the given one takes its values,
  and where there is none the given row is added.
\<close>

definition session_merge :: "daily_weather_row \<Rightarrow> daily_weather_row list \<Rightarrow> daily_weather_row list" where
  "session_merge r tbl =
     (if primary_key r \<in> primary_key ` set tbl
      then map (\<lambda>x. if primary_key x = primary_key r then r else x) tbl
      else tbl @ [r])"

definition aggregate_daily_weather :: "date \<Rightarrow> state \<Rightarrow> state" where
  "aggregate_daily_weather today s =
     s\<lparr>daily_weather :=
         fold session_merge (aggregate_query today (realtime_weather s)) (daily_weather s)\<rparr>"

section \<open>Historical export\<close>

text \<open>
  The \<^verbatim>\<open>__dict__\<close> of a mapped instance holds its columns and, under the key
  \<^verbatim>\<open>_sa_instance_state\<close>, the library's own state object (the entry that
  \<^verbatim>\<open>get_realtime_data\<close> pops). \<^verbatim>\<open>json.dumps\<close> without \<^verbatim>\<open>default\<close> encodes strings
  and numbers and raises \<^verbatim>\<open>TypeError\<close> on any other object. The JSON text is kept as
  the value it denotes.
\<close>

datatype py_value = Str string | Float real | Date date | InstanceState

datatype json_value =
    JString string
  | JNumber real
  | JObject "(string \<times> json_value) list"
  | JArray "json_value list"

definition instance_dict :: "daily_weather_row \<Rightarrow> (string \<times> py_value) list" where
  "instance_dict r =
     [(''_sa_instance_state'', InstanceState),
      (''date'', Date (date r)),
      (''city'', Str (daily_city r)),
      (''avg_temp'', Float (avg_temp r)),
      (''max_temp'', Float (max_temp r)),
      (''min_temp'', Float (min_temp r)),
      (''dom_condition'', Str (dom_condition r))]"

definition dumps_value :: "py_value \<Rightarrow> error + json_value" where
  "dumps_value v =
     (case v of
        Str x \<Rightarrow> Inr (JString x)
      | Float x \<Rightarrow> Inr (JNumber x)
      | Date d \<Rightarrow> Inl (TypeError ''Object of type date is not JSON serializable'')
      | InstanceState \<Rightarrow>
          Inl (TypeError ''Object of type InstanceState is not JSON serializable''))"

fun dumps_dict :: "(string \<times> py_value) list \<Rightarrow> error + (string \<times> json_value) list" where
  "dumps_dict [] = Inr []"
| "dumps_dict ((k, v) # kvs) =
     or_raise (dumps_value v) (\<lambda>j. or_raise (dumps_dict kvs) (\<lambda>js. Inr ((k, j) # js)))"

fun dumps_list :: "(string \<times> py_value) list list \<Rightarrow> error + json_value list" where
  "dumps_list [] = Inr []"
| "dumps_list (d # ds) =
     or_raise (dumps_dict d) (\<lambda>j. or_raise (dumps_list ds) (\<lambda>js. Inr (JObject j # js)))"

definition get_historical_data :: "state \<Rightarrow> error + json_value" where
  "get_historical_data s =
     (let historical_data = daily_weather s in
      or_raise (dumps_list (map instance_dict historical_data)) (\<lambda>js. Inr (JArray js)))"

section \<open>Vocabulary of the properties, and sample data\<close>

text \<open>
  What the specification asks of one metric: no event when the value lies in the inclusive
  range from \<open>lo\<close> to \<open>hi\<close>, and otherwise one event that carries the reading's time
  and city, the metric's name, the observed value and the range.
\<close>

definition expected_alert ::
  "weather_data \<Rightarrow> string \<Rightarrow> string \<Rightarrow> real \<Rightarrow> real \<Rightarrow> real \<Rightarrow> alert_event list" where
  "expected_alert wd trigger' label v lo hi =
     (if lo \<le> v \<and> v \<le> hi then []
      else [\<lparr>alert_dt = dt wd, alert_city = city wd, reason = Found label v [lo, hi],
             trigger = trigger'\<rparr>])"

definition admitted :: "error + 'a \<Rightarrow> bool" where
  "admitted r = (case r of Inl _ \<Rightarrow> False | Inr _ \<Rightarrow> True)"

text \<open>A handler that counts its invocations: the world is the number of calls so far.\<close>

definition counting :: "string \<Rightarrow> nat \<Rightarrow> nat \<times> nat" where
  "counting k n = (n, Suc n)"

definition row_at :: "datetime \<Rightarrow> weather_data" where
  "row_at t = \<lparr>dt = t, main_condition = ''Rain'', temp = 20, feels_like = 19, pressure = 1000,
               humidity = 50, rain = 0, clouds = 10, city = ''Pune''\<rparr>"

definition empty_state :: state where
  "empty_state = \<lparr>realtime_weather = [], daily_weather = [], alert_events = [], stdout = []\<rparr>"

definition hot_reading :: weather_data where
  "hot_reading = \<lparr>dt = 1729400000000000, main_condition = ''Clear'', temp = 105, feels_like = 30,
     pressure = 1000, humidity = 50, rain = 0, clouds = 10, city = ''Delhi''\<rparr>"

definition boundary_reading :: weather_data where
  "boundary_reading = \<lparr>dt = 1729400000000000, main_condition = ''Clear'', temp = 10, feels_like = 30,
     pressure = 1000, humidity = 50, rain = 0, clouds = 10, city = ''Delhi''\<rparr>"

definition one_client :: request_counts where
  "one_client = [''10.0.0.1'' \<mapsto> \<lparr>count = 1, timestamp = 0\<rparr>]"

definition three_calls :: "(string \<times> real) list" where
  "three_calls = [(''10.0.0.1'', 5), (''10.0.0.1'', 10), (''10.0.0.1'', 65)]"

definition two_requests :: request_counts where
  "two_requests = [''10.0.0.1'' \<mapsto> \<lparr>count = 2, timestamp = 5\<rparr>]"

definition later_calls :: "(string \<times> real) list" where
  "later_calls = [(''10.0.0.1'', 30), (''10.0.0.2'', 31), (''10.0.0.1'', 65)]"

definition fresh_entry :: "string \<rightharpoonup> nat cache_entry" where
  "fresh_entry = [''realtime'' \<mapsto> \<lparr>value = 0, cache_timestamp = 0\<rparr>]"

definition pune_summary :: daily_weather_row where
  "pune_summary = \<lparr>date = 20016, daily_city = ''Pune'', avg_temp = 27, max_temp = 31,
     min_temp = 22, dom_condition = ''Rain''\<rparr>"




definition reading_of :: "string \<Rightarrow> datetime \<Rightarrow> real \<Rightarrow> string \<Rightarrow> weather_data" where
  "reading_of c t k cond = \<lparr>dt = t, main_condition = cond, temp = k, feels_like = k,
     pressure = 1000, humidity = 50, rain = 0, clouds = 10, city = c\<rparr>"

definition one_day :: state where
  "one_day =
     \<lparr>realtime_weather =
        [reading_of ''Pune'' 1729382400000000 20 ''Clouds'',
         reading_of ''Delhi'' 1729400000000000 35 ''Clear'',
         reading_of ''Pune'' 1729468799999999 30 ''Rain'',
         reading_of ''Pune'' 1729382399999999 10 ''Snow''],
      daily_weather =
        [\<lparr>date = 20016, daily_city = ''Pune'', avg_temp = 0, max_temp = 0, min_temp = 0,
          dom_condition = ''Mist''\<rparr>],
      alert_events = [], stdout = []\<rparr>"

section \<open>Retention on ingest\<close>

lemma cleanup_succeeds:
  "cleanup_old_realtime_weather Succeeds now s =
     (None, s\<lparr>realtime_weather := filter (\<lambda>r. now - 86400000000 \<le> dt r) (realtime_weather s)\<rparr>)"
  by (simp add: cleanup_old_realtime_weather_def timedelta_hours_def timedelta_seconds_def not_less)

text \<open>
  C2. On every ingest call the cleanup runs first: whatever the reading, the stored rows
  that remain are those with a timestamp not before (now - 24 hours). A stored row strictly
  older than that is gone before the new row is added, a stored row exactly at the boundary
  stays, and the new row follows the rows that were kept.
\<close>

theorem ingest_purges_older_than_24_hours:
  "let kept = filter (\<lambda>x. now - 86400000000 \<le> dt x) (realtime_weather s);
       new_data = \<lparr>dt = d, main_condition = mc, temp = t, feels_like = f, pressure = p,
                   humidity = h, rain = r, clouds = c, city = ci\<rparr>
   in insert_realtime_weather Succeeds oc now d mc t f p h r c ci s =
        (case oc of
           Succeeds \<Rightarrow> (None, s\<lparr>realtime_weather := kept @ [new_data]\<rparr>)
         | Fails \<Rightarrow> (Some StorageError, s\<lparr>realtime_weather := kept\<rparr>))
      \<and> (\<forall>x \<in> set (realtime_weather s). dt x < now - 86400000000 \<longrightarrow> x \<notin> set kept)
      \<and> (\<forall>x \<in> set (realtime_weather s). dt x = now - 86400000000 \<longrightarrow> x \<in> set kept)"
  by (cases oc) (auto simp: insert_realtime_weather_def cleanup_succeeds Let_def)

theorem ingest_purges_older_than_24_hours_witness:
  "insert_realtime_weather Succeeds Succeeds 100000000000
      99999999999 ''Clear'' 21 20 1001 40 0 0 ''Pune''
      \<lparr>realtime_weather = [row_at 13599999999, row_at 13600000000, row_at 13600000001],
       daily_weather = [], alert_events = [], stdout = []\<rparr>
   = (None,
      \<lparr>realtime_weather =
         [row_at 13600000000, row_at 13600000001,
          \<lparr>dt = 99999999999, main_condition = ''Clear'', temp = 21, feels_like = 20,
           pressure = 1001, humidity = 40, rain = 0, clouds = 0, city = ''Pune''\<rparr>],
       daily_weather = [], alert_events = [], stdout = []\<rparr>)
   \<and> dt (row_at 13599999999) < 100000000000 - 86400000000
   \<and> dt (row_at 13600000000) = 100000000000 - 86400000000"
  using ingest_purges_older_than_24_hours
    [of 100000000000
        "\<lparr>realtime_weather = [row_at 13599999999, row_at 13600000000, row_at 13600000001],
          daily_weather = [], alert_events = [], stdout = []\<rparr>"
        99999999999 "''Clear''" 21 20 1001 40 0 0 "''Pune''" Succeeds]
  by (simp add: row_at_def Let_def)

section \<open>Failures on ingest\<close>




section \<open>Threshold updates\<close>

lemma call_update_complete:
  assumes "fst ` set kwargs \<subseteq> set parameter_names"
    and "map_of kwargs ''temp'' = Some t" "map_of kwargs ''feels_like'' = Some f"
    and "map_of kwargs ''pressure'' = Some p" "map_of kwargs ''humidity'' = Some h"
    and "map_of kwargs ''rain'' = Some r" "map_of kwargs ''clouds'' = Some c"
  shows "call_update_thresholds self kwargs =
     (None, \<lparr>th_temp = t, th_feels_like = f, th_pressure = p, th_humidity = h,
             th_rain = r, th_clouds = c\<rparr>)"
proof -
  have "filter (\<lambda>k. k \<notin> set parameter_names) (map fst kwargs) = []"
    using assms(1) by (auto simp: filter_empty_conv)
  then show ?thesis
    using assms(2-) by (simp add: call_update_thresholds_def update_thresholds_def)
qed

lemma call_update_partial:
  assumes "n \<in> set parameter_names" "map_of kwargs n = None"
  shows "\<exists>e. call_update_thresholds self kwargs = (Some e, self)"
proof (cases "filter (\<lambda>k. k \<notin> set parameter_names) (map fst kwargs)")
  case (Cons k ks)
  then show ?thesis by (simp add: call_update_thresholds_def)
next
  case Nil
  from assms have "map_of kwargs ''temp'' = None \<or> map_of kwargs ''feels_like'' = None \<or>
      map_of kwargs ''pressure'' = None \<or> map_of kwargs ''humidity'' = None \<or>
      map_of kwargs ''rain'' = None \<or> map_of kwargs ''clouds'' = None"
    by (auto simp: parameter_names_def)
  with Nil show ?thesis
    by (auto simp: call_update_thresholds_def split: option.splits)
qed

text \<open>
  C8, as the claim states it, fails: the update stores whatever ranges it is given. An
  update of all six metrics whose temperature range is 10 to 5 is accepted, and the set
  then holds a range with its lower bound above its upper bound.
\<close>

theorem update_accepts_ill_ordered_range:
  "call_update_thresholds default_thresholds
     [(''temp'', [10, 5]), (''feels_like'', [0, 100]), (''pressure'', [0, 1000]),
      (''humidity'', [0, 100]), (''rain'', [0, 100]), (''clouds'', [0, 100])]
   = (None, default_thresholds\<lparr>th_temp := [10, 5]\<rparr>)
   \<and> all_well_ordered default_thresholds
   \<and> \<not> all_well_ordered (default_thresholds\<lparr>th_temp := [10, 5]\<rparr>)"
  by (simp add: call_update_thresholds_def parameter_names_def update_thresholds_def
      default_thresholds_def all_well_ordered_def well_ordered_def)

text \<open>
  C8, amended. An update that names exactly the six metrics succeeds, and afterwards the
  set holds all six metrics, each with the range the update supplied: every range is
  well ordered afterwards exactly when every supplied range is. An update that leaves one
  of the six metrics out is rejected with an exception and the set is as it was.
\<close>

theorem update_replaces_all_six_or_nothing:
  "(fst ` set kwargs \<subseteq> set parameter_names \<and>
    map_of kwargs ''temp'' = Some t \<and> map_of kwargs ''feels_like'' = Some f \<and>
    map_of kwargs ''pressure'' = Some p \<and> map_of kwargs ''humidity'' = Some h \<and>
    map_of kwargs ''rain'' = Some r \<and> map_of kwargs ''clouds'' = Some c \<longrightarrow>
      call_update_thresholds self kwargs =
        (None, \<lparr>th_temp = t, th_feels_like = f, th_pressure = p, th_humidity = h,
                th_rain = r, th_clouds = c\<rparr>)
      \<and> all_well_ordered (snd (call_update_thresholds self kwargs)) =
          (well_ordered t \<and> well_ordered f \<and> well_ordered p \<and> well_ordered h \<and>
           well_ordered r \<and> well_ordered c))
   \<and> ((\<exists>n \<in> set parameter_names. map_of kwargs n = None) \<longrightarrow>
        (\<exists>e. call_update_thresholds self kwargs = (Some e, self)))"
proof (intro conjI impI)
  assume a: "fst ` set kwargs \<subseteq> set parameter_names \<and>
    map_of kwargs ''temp'' = Some t \<and> map_of kwargs ''feels_like'' = Some f \<and>
    map_of kwargs ''pressure'' = Some p \<and> map_of kwargs ''humidity'' = Some h \<and>
    map_of kwargs ''rain'' = Some r \<and> map_of kwargs ''clouds'' = Some c"
  then show eq: "call_update_thresholds self kwargs =
        (None, \<lparr>th_temp = t, th_feels_like = f, th_pressure = p, th_humidity = h,
                th_rain = r, th_clouds = c\<rparr>)"
    by (intro call_update_complete) simp_all
  show "all_well_ordered (snd (call_update_thresholds self kwargs)) =
          (well_ordered t \<and> well_ordered f \<and> well_ordered p \<and> well_ordered h \<and>
           well_ordered r \<and> well_ordered c)"
    by (simp add: eq all_well_ordered_def)
next
  assume "\<exists>n \<in> set parameter_names. map_of kwargs n = None"
  then show "\<exists>e. call_update_thresholds self kwargs = (Some e, self)"
    using call_update_partial by blast
qed

theorem update_replaces_all_six_or_nothing_witness:
  "call_update_thresholds default_thresholds
     [(''temp'', [5, 40]), (''feels_like'', [0, 45]), (''pressure'', [900, 1100]),
      (''humidity'', [10, 90]), (''rain'', [0, 50]), (''clouds'', [0, 100])]
   = (None, \<lparr>th_temp = [5, 40], th_feels_like = [0, 45], th_pressure = [900, 1100],
             th_humidity = [10, 90], th_rain = [0, 50], th_clouds = [0, 100]\<rparr>)
   \<and> all_well_ordered
       \<lparr>th_temp = [5, 40], th_feels_like = [0, 45], th_pressure = [900, 1100],
        th_humidity = [10, 90], th_rain = [0, 50], th_clouds = [0, 100]\<rparr>
   \<and> ''clouds'' \<in> set parameter_names
   \<and> map_of [(''temp'', [5, 40 :: real]), (''rain'', [0, 50])] ''clouds'' = None
   \<and> call_update_thresholds default_thresholds [(''temp'', [5, 40]), (''rain'', [0, 50])]
      = (Some (TypeError ''missing required positional argument''), default_thresholds)"
  using update_replaces_all_six_or_nothing
      [of "[(''temp'', [5, 40]), (''feels_like'', [0, 45]), (''pressure'', [900, 1100]),
            (''humidity'', [10, 90]), (''rain'', [0, 50]), (''clouds'', [0, 100])]"
          "[5, 40]" "[0, 45]" "[900, 1100]" "[10, 90]" "[0, 50]" "[0, 100]" default_thresholds]
    update_replaces_all_six_or_nothing
      [of "[(''temp'', [5, 40]), (''rain'', [0, 50])]" "[]" "[]" "[]" "[]" "[]" "[]"
          default_thresholds]
  by (simp add: call_update_thresholds_def parameter_names_def update_thresholds_def
      default_thresholds_def all_well_ordered_def well_ordered_def)

section \<open>Alert evaluation against the thresholds\<close>

lemma check_block_range:
  "\<exists>s'. check_block wd v [lo, hi] trigger' label name s = (None, s')
        \<and> alert_events s' = alert_events s @ expected_alert wd trigger' label v lo hi"
  by (auto simp: check_block_def outside_range_def expected_alert_def insert_alert_event_def
      Let_def)

lemma and_then_None: "and_then (None, s) f = f s"
  by (simp add: and_then_def)

lemma check_data_against_alerts_events:
  "\<exists>s'. check_data_against_alerts wd
      \<lparr>th_temp = [t_lo, t_hi], th_feels_like = [f_lo, f_hi], th_pressure = [p_lo, p_hi],
       th_humidity = [h_lo, h_hi], th_rain = [r_lo, r_hi], th_clouds = [c_lo, c_hi]\<rparr> s
        = (None, s')
    \<and> alert_events s' = alert_events s @
        (expected_alert wd ''Temperature'' ''temp'' (temp wd) t_lo t_hi @
         expected_alert wd ''Feels Like'' ''feels like'' (feels_like wd) f_lo f_hi @
         expected_alert wd ''Pressure'' ''pressure'' (pressure wd) p_lo p_hi @
         expected_alert wd ''Humidity'' ''humidity'' (humidity wd) h_lo h_hi @
         expected_alert wd ''Rain'' ''rain'' (rain wd) r_lo r_hi @
         expected_alert wd ''Clouds'' ''clouds'' (clouds wd) c_lo c_hi)"
proof -
  obtain s1 where 1:
    "check_block wd (temp wd) [t_lo, t_hi] ''Temperature'' ''temp'' ''Temperature'' s = (None, s1)"
    "alert_events s1 = alert_events s @ expected_alert wd ''Temperature'' ''temp'' (temp wd) t_lo t_hi"
    using check_block_range by blast
  obtain s2 where 2:
    "check_block wd (feels_like wd) [f_lo, f_hi] ''Feels Like'' ''feels like'' ''Feels like'' s1
       = (None, s2)"
    "alert_events s2 =
       alert_events s1 @ expected_alert wd ''Feels Like'' ''feels like'' (feels_like wd) f_lo f_hi"
    using check_block_range by blast
  obtain s3 where 3:
    "check_block wd (pressure wd) [p_lo, p_hi] ''Pressure'' ''pressure'' ''Pressure'' s2 = (None, s3)"
    "alert_events s3 = alert_events s2 @ expected_alert wd ''Pressure'' ''pressure'' (pressure wd) p_lo p_hi"
    using check_block_range by blast
  obtain s4 where 4:
    "check_block wd (humidity wd) [h_lo, h_hi] ''Humidity'' ''humidity'' ''Humidity'' s3 = (None, s4)"
    "alert_events s4 = alert_events s3 @ expected_alert wd ''Humidity'' ''humidity'' (humidity wd) h_lo h_hi"
    using check_block_range by blast
  obtain s5 where 5:
    "check_block wd (rain wd) [r_lo, r_hi] ''Rain'' ''rain'' ''Rain'' s4 = (None, s5)"
    "alert_events s5 = alert_events s4 @ expected_alert wd ''Rain'' ''rain'' (rain wd) r_lo r_hi"
    using check_block_range by blast
  obtain s6 where 6:
    "check_block wd (clouds wd) [c_lo, c_hi] ''Clouds'' ''clouds'' ''Clouds'' s5 = (None, s6)"
    "alert_events s6 = alert_events s5 @ expected_alert wd ''Clouds'' ''clouds'' (clouds wd) c_lo c_hi"
    using check_block_range by blast
  show ?thesis
    by (simp add: check_data_against_alerts_def and_then_None 1 2 3 4 5 6)
qed

lemma filter_trigger_expected_alert:
  "filter (\<lambda>e. trigger e = T) (expected_alert wd T' label v lo hi) =
     (if T = T' then expected_alert wd T' label v lo hi else [])"
  by (auto simp: expected_alert_def)

lemma length_expected_alert:
  "length (expected_alert wd T label v lo hi) = (if v < lo \<or> hi < v then 1 else 0)"
  by (auto simp: expected_alert_def)

lemma none_with_trigger:
  "(\<exists>e \<in> set xs. trigger e = T) = (length (filter (\<lambda>e. trigger e = T) xs) \<noteq> 0)"
  by (simp add: filter_empty_conv)

text \<open>
  C1, amended. For every reading and every threshold set of six ranges [lower, upper], the
  evaluation raises no exception and appends to the alert table, in the order of the
  checks, one event for each metric whose value is below the lower or above the upper
  bound: the count of new events naming a metric is 1 when its value is outside and 0
  otherwise, so a reading yields at most six. For a metric whose range has lower \<le> upper,
  a value equal to either bound adds no event.
\<close>

theorem alerts_one_per_metric_outside_range:
  "let th = \<lparr>th_temp = [t_lo, t_hi], th_feels_like = [f_lo, f_hi], th_pressure = [p_lo, p_hi],
             th_humidity = [h_lo, h_hi], th_rain = [r_lo, r_hi], th_clouds = [c_lo, c_hi]\<rparr>;
       result = check_data_against_alerts wd th s;
       new = expected_alert wd ''Temperature'' ''temp'' (temp wd) t_lo t_hi @
             expected_alert wd ''Feels Like'' ''feels like'' (feels_like wd) f_lo f_hi @
             expected_alert wd ''Pressure'' ''pressure'' (pressure wd) p_lo p_hi @
             expected_alert wd ''Humidity'' ''humidity'' (humidity wd) h_lo h_hi @
             expected_alert wd ''Rain'' ''rain'' (rain wd) r_lo r_hi @
             expected_alert wd ''Clouds'' ''clouds'' (clouds wd) c_lo c_hi
   in fst result = None
    \<and> alert_events (snd result) = alert_events s @ new
    \<and> length new \<le> 6
    \<and> length (filter (\<lambda>e. trigger e = ''Temperature'') new) =
        (if temp wd < t_lo \<or> t_hi < temp wd then 1 else 0)
    \<and> length (filter (\<lambda>e. trigger e = ''Feels Like'') new) =
        (if feels_like wd < f_lo \<or> f_hi < feels_like wd then 1 else 0)
    \<and> length (filter (\<lambda>e. trigger e = ''Pressure'') new) =
        (if pressure wd < p_lo \<or> p_hi < pressure wd then 1 else 0)
    \<and> length (filter (\<lambda>e. trigger e = ''Humidity'') new) =
        (if humidity wd < h_lo \<or> h_hi < humidity wd then 1 else 0)
    \<and> length (filter (\<lambda>e. trigger e = ''Rain'') new) =
        (if rain wd < r_lo \<or> r_hi < rain wd then 1 else 0)
    \<and> length (filter (\<lambda>e. trigger e = ''Clouds'') new) =
        (if clouds wd < c_lo \<or> c_hi < clouds wd then 1 else 0)
    \<and> (t_lo \<le> t_hi \<and> (temp wd = t_lo \<or> temp wd = t_hi) \<longrightarrow>
          \<not> (\<exists>e \<in> set new. trigger e = ''Temperature''))
    \<and> (f_lo \<le> f_hi \<and> (feels_like wd = f_lo \<or> feels_like wd = f_hi) \<longrightarrow>
          \<not> (\<exists>e \<in> set new. trigger e = ''Feels Like''))
    \<and> (p_lo \<le> p_hi \<and> (pressure wd = p_lo \<or> pressure wd = p_hi) \<longrightarrow>
          \<not> (\<exists>e \<in> set new. trigger e = ''Pressure''))
    \<and> (h_lo \<le> h_hi \<and> (humidity wd = h_lo \<or> humidity wd = h_hi) \<longrightarrow>
          \<not> (\<exists>e \<in> set new. trigger e = ''Humidity''))
    \<and> (r_lo \<le> r_hi \<and> (rain wd = r_lo \<or> rain wd = r_hi) \<longrightarrow>
          \<not> (\<exists>e \<in> set new. trigger e = ''Rain''))
    \<and> (c_lo \<le> c_hi \<and> (clouds wd = c_lo \<or> clouds wd = c_hi) \<longrightarrow>
          \<not> (\<exists>e \<in> set new. trigger e = ''Clouds''))"
proof -
  define new where "new =
      expected_alert wd ''Temperature'' ''temp'' (temp wd) t_lo t_hi @
      expected_alert wd ''Feels Like'' ''feels like'' (feels_like wd) f_lo f_hi @
      expected_alert wd ''Pressure'' ''pressure'' (pressure wd) p_lo p_hi @
      expected_alert wd ''Humidity'' ''humidity'' (humidity wd) h_lo h_hi @
      expected_alert wd ''Rain'' ''rain'' (rain wd) r_lo r_hi @
      expected_alert wd ''Clouds'' ''clouds'' (clouds wd) c_lo c_hi"
  obtain s' where run:
    "check_data_against_alerts wd
      \<lparr>th_temp = [t_lo, t_hi], th_feels_like = [f_lo, f_hi], th_pressure = [p_lo, p_hi],
       th_humidity = [h_lo, h_hi], th_rain = [r_lo, r_hi], th_clouds = [c_lo, c_hi]\<rparr> s
        = (None, s')"
    "alert_events s' = alert_events s @ new"
    unfolding new_def using check_data_against_alerts_events by blast
  have len: "length new \<le> 6"
    by (simp add: new_def length_expected_alert)
  have t: "length (filter (\<lambda>e. trigger e = ''Temperature'') new) =
        (if temp wd < t_lo \<or> t_hi < temp wd then 1 else 0)"
    by (simp add: new_def filter_trigger_expected_alert length_expected_alert)
  have f: "length (filter (\<lambda>e. trigger e = ''Feels Like'') new) =
        (if feels_like wd < f_lo \<or> f_hi < feels_like wd then 1 else 0)"
    by (simp add: new_def filter_trigger_expected_alert length_expected_alert)
  have p: "length (filter (\<lambda>e. trigger e = ''Pressure'') new) =
        (if pressure wd < p_lo \<or> p_hi < pressure wd then 1 else 0)"
    by (simp add: new_def filter_trigger_expected_alert length_expected_alert)
  have h: "length (filter (\<lambda>e. trigger e = ''Humidity'') new) =
        (if humidity wd < h_lo \<or> h_hi < humidity wd then 1 else 0)"
    by (simp add: new_def filter_trigger_expected_alert length_expected_alert)
  have r: "length (filter (\<lambda>e. trigger e = ''Rain'') new) =
        (if rain wd < r_lo \<or> r_hi < rain wd then 1 else 0)"
    by (simp add: new_def filter_trigger_expected_alert length_expected_alert)
  have c: "length (filter (\<lambda>e. trigger e = ''Clouds'') new) =
        (if clouds wd < c_lo \<or> c_hi < clouds wd then 1 else 0)"
    by (simp add: new_def filter_trigger_expected_alert length_expected_alert)
  have bt: "t_lo \<le> t_hi \<and> (temp wd = t_lo \<or> temp wd = t_hi) \<longrightarrow>
          \<not> (\<exists>e \<in> set new. trigger e = ''Temperature'')"
    unfolding none_with_trigger t by auto
  have bf: "f_lo \<le> f_hi \<and> (feels_like wd = f_lo \<or> feels_like wd = f_hi) \<longrightarrow>
          \<not> (\<exists>e \<in> set new. trigger e = ''Feels Like'')"
    unfolding none_with_trigger f by auto
  have bp: "p_lo \<le> p_hi \<and> (pressure wd = p_lo \<or> pressure wd = p_hi) \<longrightarrow>
          \<not> (\<exists>e \<in> set new. trigger e = ''Pressure'')"
    unfolding none_with_trigger p by auto
  have bh: "h_lo \<le> h_hi \<and> (humidity wd = h_lo \<or> humidity wd = h_hi) \<longrightarrow>
          \<not> (\<exists>e \<in> set new. trigger e = ''Humidity'')"
    unfolding none_with_trigger h by auto
  have br: "r_lo \<le> r_hi \<and> (rain wd = r_lo \<or> rain wd = r_hi) \<longrightarrow>
          \<not> (\<exists>e \<in> set new. trigger e = ''Rain'')"
    unfolding none_with_trigger r by auto
  have bc: "c_lo \<le> c_hi \<and> (clouds wd = c_lo \<or> clouds wd = c_hi) \<longrightarrow>
          \<not> (\<exists>e \<in> set new. trigger e = ''Clouds'')"
    unfolding none_with_trigger c by auto
  show ?thesis
    unfolding Let_def new_def[symmetric]
    using run len t f p h r c bt bf bp bh br bc by simp
qed

theorem alerts_one_per_metric_outside_range_witness:
  "check_data_against_alerts hot_reading default_thresholds empty_state =
     (None, \<lparr>realtime_weather = [], daily_weather = [],
        alert_events = [\<lparr>alert_dt = 1729400000000000, alert_city = ''Delhi'',
                         reason = Found ''temp'' 105 [0, 100], trigger = ''Temperature''\<rparr>],
        stdout = [Threshold_exceeded ''Temperature'' ''Delhi'']\<rparr>)
   \<and> (0::real) \<le> 1000 \<and> pressure hot_reading = 1000"
  using alerts_one_per_metric_outside_range
    [of 0 100 0 100 0 1000 0 100 0 100 0 100 hot_reading empty_state]
  by (simp add: check_data_against_alerts_def check_block_def outside_range_def and_then_def
      insert_alert_event_def hot_reading_def default_thresholds_def empty_state_def)

text \<open>
  C1, as the claim states it for every threshold set, fails where a range has its lower
  bound above its upper bound: with the temperature range 10 to 5, a temperature equal to
  the lower bound 10 is above the upper bound, and the event is stored.
\<close>

theorem boundary_value_alerts_when_range_ill_ordered:
  "temp boundary_reading = 10
   \<and> th_temp (default_thresholds\<lparr>th_temp := [10, 5]\<rparr>) = [10, 5]
   \<and> check_data_against_alerts boundary_reading (default_thresholds\<lparr>th_temp := [10, 5]\<rparr>)
       empty_state =
     (None, \<lparr>realtime_weather = [], daily_weather = [],
        alert_events = [\<lparr>alert_dt = 1729400000000000, alert_city = ''Delhi'',
                         reason = Found ''temp'' 10 [10, 5], trigger = ''Temperature''\<rparr>],
        stdout = [Threshold_exceeded ''Temperature'' ''Delhi'']\<rparr>)"
  by (simp add: check_data_against_alerts_def check_block_def outside_range_def and_then_def
      insert_alert_event_def boundary_reading_def default_thresholds_def empty_state_def)

section \<open>The rate limiter's window\<close>

lemma rate_limit_fresh:
  assumes "rc client = None"
  shows "rate_limit limit interval func client t (rc, w) =
     (if 1 \<le> limit
      then (Inr (fst (func client w)), rc(client \<mapsto> \<lparr>count = 1, timestamp = t\<rparr>),
            snd (func client w))
      else (Inl (HTTPException 429 ''Rate limit exceeded''),
            rc(client \<mapsto> \<lparr>count = 1, timestamp = t\<rparr>), w))"
  using assms by (auto simp: rate_limit_def Let_def split: prod.splits)

lemma rate_limit_within:
  assumes "rc client = Some i" "\<not> t - timestamp i > of_int interval"
  shows "rate_limit limit interval func client t (rc, w) =
     (if count i + 1 \<le> limit
      then (Inr (fst (func client w)), rc(client \<mapsto> i\<lparr>count := count i + 1\<rparr>),
            snd (func client w))
      else (Inl (HTTPException 429 ''Rate limit exceeded''),
            rc(client \<mapsto> i\<lparr>count := count i + 1\<rparr>), w))"
  using assms by (auto simp: rate_limit_def Let_def split: prod.splits)

lemma rate_limit_reset:
  assumes "rc client = Some i" "t - timestamp i > of_int interval"
  shows "rate_limit limit interval func client t (rc, w) =
     (if 1 \<le> limit
      then (Inr (fst (func client w)), rc(client \<mapsto> \<lparr>count = 1, timestamp = t\<rparr>),
            snd (func client w))
      else (Inl (HTTPException 429 ''Rate limit exceeded''),
            rc(client \<mapsto> \<lparr>count = 1, timestamp = t\<rparr>), w))"
  using assms by (cases i) (auto simp: rate_limit_def Let_def split: prod.splits)

lemma rate_limit_other:
  assumes "c \<noteq> client"
  shows "fst (snd (rate_limit limit interval func c t (rc, w))) client = rc client"
  using assms by (auto simp: rate_limit_def Let_def split: prod.splits)

lemma rate_limit_rejected_count:
  assumes "rate_limit limit interval func client t st = (r, rc1, w1)" "rejected r"
  shows "\<exists>i. rc1 client = Some i \<and> limit < count i"
  using assms
  by (cases st)
    (auto simp: rate_limit_def Let_def rejected_def split: prod.splits if_splits option.splits)

text \<open>
  Calls of one client that all fall inside its window: the count goes up by one with each
  call, whether it is admitted or rejected, and the handler runs for the admitted ones.
\<close>

lemma serve_window:
  assumes "rc client = Some i" "\<forall>t \<in> set ts. \<not> t - timestamp i > of_int interval"
  shows "\<exists>rs rc' w'. serve limit interval func (map (Pair client) ts) (rc, w) = (rs, rc', w')
     \<and> length rs = length ts
     \<and> (\<forall>k < length ts. admitted (rs ! k) = (count i + int k + 1 \<le> limit))
     \<and> (\<forall>k < length ts. rejected (rs ! k) = (limit < count i + int k + 1))
     \<and> rc' client = Some (i\<lparr>count := count i + int (length ts)\<rparr>)
     \<and> w' = ((\<lambda>w. snd (func client w)) ^^ nat (min (limit - count i) (int (length ts)))) w"
  using assms
proof (induction ts arbitrary: rc i w)
  case Nil
  then show ?case by simp
next
  case (Cons t ts)
  let ?i' = "i\<lparr>count := count i + 1\<rparr>"
  let ?rc' = "rc(client \<mapsto> ?i')"
  have step: "rate_limit limit interval func client t (rc, w) =
     (if count i + 1 \<le> limit
      then (Inr (fst (func client w)), ?rc', snd (func client w))
      else (Inl (HTTPException 429 ''Rate limit exceeded''), ?rc', w))"
    using Cons.prems by (intro rate_limit_within) auto
  define w1 where "w1 = (if count i + 1 \<le> limit then snd (func client w) else w)"
  define r1 where "r1 = (if count i + 1 \<le> limit then Inr (fst (func client w))
      else Inl (HTTPException 429 ''Rate limit exceeded''))"
  have step': "rate_limit limit interval func client t (rc, w) = (r1, ?rc', w1)"
    by (simp add: step w1_def r1_def)
  have "?rc' client = Some ?i'" by simp
  moreover have "\<forall>t \<in> set ts. \<not> t - timestamp ?i' > of_int interval"
    using Cons.prems by simp
  ultimately obtain rs rc'' w'' where
    IH: "serve limit interval func (map (Pair client) ts) (?rc', w1) = (rs, rc'', w'')"
      "length rs = length ts"
      "\<forall>k < length ts. admitted (rs ! k) = (count ?i' + int k + 1 \<le> limit)"
      "\<forall>k < length ts. rejected (rs ! k) = (limit < count ?i' + int k + 1)"
      "rc'' client = Some (?i'\<lparr>count := count ?i' + int (length ts)\<rparr>)"
      "w'' = ((\<lambda>w. snd (func client w)) ^^ nat (min (limit - count ?i') (int (length ts)))) w1"
    using Cons.IH[of ?rc' ?i' w1] by blast
  have res: "serve limit interval func (map (Pair client) (t # ts)) (rc, w) = (r1 # rs, rc'', w'')"
    by (simp add: step' IH(1))
  have r1a: "admitted r1 = (count i + 1 \<le> limit)" by (simp add: r1_def admitted_def)
  have r1r: "rejected r1 = (limit < count i + 1)" by (auto simp: r1_def rejected_def)
  have a: "\<forall>k < length (t # ts). admitted ((r1 # rs) ! k) = (count i + int k + 1 \<le> limit)"
  proof (intro allI impI)
    fix k assume "k < length (t # ts)"
    then show "admitted ((r1 # rs) ! k) = (count i + int k + 1 \<le> limit)"
      using IH(3) r1a by (cases k) (auto simp: algebra_simps)
  qed
  have b: "\<forall>k < length (t # ts). rejected ((r1 # rs) ! k) = (limit < count i + int k + 1)"
  proof (intro allI impI)
    fix k assume "k < length (t # ts)"
    then show "rejected ((r1 # rs) ! k) = (limit < count i + int k + 1)"
      using IH(4) r1r by (cases k) (auto simp: algebra_simps)
  qed
  have c: "rc'' client = Some (i\<lparr>count := count i + int (length (t # ts))\<rparr>)"
    using IH(5) by (simp add: algebra_simps)
  have d: "w'' = ((\<lambda>w. snd (func client w)) ^^ nat (min (limit - count i) (int (length (t # ts))))) w"
  proof (cases "count i + 1 \<le> limit")
    case True
    then have "nat (min (limit - count i) (int (length (t # ts)))) =
        Suc (nat (min (limit - count ?i') (int (length ts))))"
      by (auto simp: min_def)
    then show ?thesis
      using True IH(6)
        funpow_swap1[of "\<lambda>w. snd (func client w)"
          "nat (min (limit - count ?i') (int (length ts)))" w]
      by (simp add: w1_def)
  next
    case False
    then have "nat (min (limit - count i) (int (length (t # ts)))) = 0"
      "nat (min (limit - count ?i') (int (length ts))) = 0"
      by (simp_all add: min_def)
    then show ?thesis using False IH(6) by (simp add: w1_def)
  qed
  show ?case using res IH(2) a b c d by simp
qed

text \<open>The call at \<open>t0\<close> opens a window: the client is new, or its window has run out.\<close>

lemma rate_limit_opens_window:
  assumes "rc client = None \<or> (\<exists>i. rc client = Some i \<and> of_int interval < t0 - timestamp i)"
  shows "rate_limit limit interval func client t0 (rc, w) =
     (if 1 \<le> limit
      then (Inr (fst (func client w)), rc(client \<mapsto> \<lparr>count = 1, timestamp = t0\<rparr>),
            snd (func client w))
      else (Inl (HTTPException 429 ''Rate limit exceeded''),
            rc(client \<mapsto> \<lparr>count = 1, timestamp = t0\<rparr>), w))"
proof -
  show ?thesis
  proof (cases "rc client")
    case None
    then show ?thesis by (rule rate_limit_fresh)
  next
    case (Some i)
    with assms have "of_int interval < t0 - timestamp i" by simp
    with Some show ?thesis by (rule rate_limit_reset)
  qed
qed

lemma serve_from_window_start:
  assumes "rc client = None \<or> (\<exists>i. rc client = Some i \<and> of_int interval < t0 - timestamp i)"
    and "\<forall>t \<in> set ts. t - t0 \<le> of_int interval"
  shows "\<exists>rs rc' w'. serve limit interval func (map (Pair client) (t0 # ts)) (rc, w) = (rs, rc', w')
     \<and> length rs = Suc (length ts)
     \<and> (\<forall>k \<le> length ts. admitted (rs ! k) = (int k < limit))
     \<and> (\<forall>k \<le> length ts. rejected (rs ! k) = (limit \<le> int k))
     \<and> rc' client = Some \<lparr>count = 1 + int (length ts), timestamp = t0\<rparr>
     \<and> w' = ((\<lambda>w. snd (func client w)) ^^ nat (min limit (1 + int (length ts)))) w"
proof -
  let ?i = "\<lparr>count = 1, timestamp = t0\<rparr>"
  let ?rc = "rc(client \<mapsto> ?i)"
  define w1 where "w1 = (if 1 \<le> limit then snd (func client w) else w)"
  define r1 where "r1 = (if 1 \<le> limit then Inr (fst (func client w))
      else Inl (HTTPException 429 ''Rate limit exceeded''))"
  have step: "rate_limit limit interval func client t0 (rc, w) = (r1, ?rc, w1)"
    using assms(1) by (simp add: rate_limit_opens_window r1_def w1_def)
  have "?rc client = Some ?i" by simp
  moreover have "\<forall>t \<in> set ts. \<not> t - timestamp ?i > of_int interval"
    using assms(2) by (auto simp: not_less)
  ultimately obtain rs rc' w' where W:
      "serve limit interval func (map (Pair client) ts) (?rc, w1) = (rs, rc', w')"
      "length rs = length ts"
      "\<forall>k < length ts. admitted (rs ! k) = (count ?i + int k + 1 \<le> limit)"
      "\<forall>k < length ts. rejected (rs ! k) = (limit < count ?i + int k + 1)"
      "rc' client = Some (?i\<lparr>count := count ?i + int (length ts)\<rparr>)"
      "w' = ((\<lambda>w. snd (func client w)) ^^ nat (min (limit - count ?i) (int (length ts)))) w1"
    using serve_window[where rc="?rc" and client=client and i="?i" and ts=ts
        and interval=interval and limit=limit and func=func and w=w1] by blast
  have res: "serve limit interval func (map (Pair client) (t0 # ts)) (rc, w) = (r1 # rs, rc', w')"
    by (simp add: step W(1))
  have a: "\<forall>k \<le> length ts. admitted ((r1 # rs) ! k) = (int k < limit)"
  proof (intro allI impI)
    fix k assume "k \<le> length ts"
    then show "admitted ((r1 # rs) ! k) = (int k < limit)"
      using W(3) by (cases k) (auto simp: r1_def admitted_def)
  qed
  have b: "\<forall>k \<le> length ts. rejected ((r1 # rs) ! k) = (limit \<le> int k)"
  proof (intro allI impI)
    fix k assume "k \<le> length ts"
    then show "rejected ((r1 # rs) ! k) = (limit \<le> int k)"
      using W(4) by (cases k) (auto simp: r1_def rejected_def)
  qed
  have c: "rc' client = Some \<lparr>count = 1 + int (length ts), timestamp = t0\<rparr>"
    using W(5) by simp
  have d: "w' = ((\<lambda>w. snd (func client w)) ^^ nat (min limit (1 + int (length ts)))) w"
  proof (cases "1 \<le> limit")
    case True
    then have "nat (min limit (1 + int (length ts))) = Suc (nat (min (limit - 1) (int (length ts))))"
      by (auto simp: min_def)
    then show ?thesis
      using True W(6)
        funpow_swap1[of "\<lambda>w. snd (func client w)" "nat (min (limit - 1) (int (length ts)))" w]
      by (simp add: w1_def)
  next
    case False
    then have "nat (min limit (1 + int (length ts))) = 0"
      "nat (min (limit - 1) (int (length ts))) = 0"
      by (simp_all add: min_def)
    then show ?thesis using False W(6) by (simp add: w1_def)
  qed
  show ?thesis using res W(2) a b c d by simp
qed

text \<open>
  C4, as the claim states it, fails for the limit 0: the call that arrives after the
  window has run out restarts the window with count 1, and 1 exceeds the limit, so the
  call is rejected.
\<close>

theorem call_after_reset_rejected_when_limit_is_zero:
  "one_client ''10.0.0.1'' = Some \<lparr>count = 1, timestamp = 0\<rparr>
   \<and> real_of_int 60 < 1000 - 0
   \<and> fst (rate_limit 0 60 counting ''10.0.0.1'' 1000 (one_client, 0)) =
       Inl (HTTPException 429 ''Rate limit exceeded'')
   \<and> fst (snd (rate_limit 0 60 counting ''10.0.0.1'' 1000 (one_client, 0))) ''10.0.0.1'' =
       Some \<lparr>count = 1, timestamp = 1000\<rparr>
   \<and> snd (snd (rate_limit 0 60 counting ''10.0.0.1'' 1000 (one_client, 0))) = 0"
  by (simp add: rate_limit_def one_client_def Let_def)

text \<open>
  C4, amended. A call at \<open>t0\<close> by a client that is new, or whose window started more than
  \<open>interval\<close> seconds before, opens a window. Of that call and the calls that follow it
  within \<open>interval\<close> seconds of \<open>t0\<close>, exactly the first \<open>limit\<close> are admitted and every
  later one, the (limit+1)-th first, is rejected with status 429; the handler has run once
  for each admitted call and not for a rejected one. A call that arrives more than
  \<open>interval\<close> seconds after the window's start restarts the window with count 1, and is
  admitted when \<open>limit\<close> is at least 1.
\<close>

theorem rate_limit_admits_limit_calls_per_window:
  "((request_counts client = None \<or>
       (\<exists>i. request_counts client = Some i \<and> of_int interval < t0 - timestamp i)) \<and>
      (\<forall>t \<in> set ts. t - t0 \<le> of_int interval) \<longrightarrow>
     (\<exists>rs rc' w'.
        serve limit interval func (map (Pair client) (t0 # ts)) (request_counts, w) = (rs, rc', w')
        \<and> length rs = Suc (length ts)
        \<and> (\<forall>k \<le> length ts. admitted (rs ! k) = (int k < limit))
        \<and> (\<forall>k \<le> length ts. rejected (rs ! k) = (limit \<le> int k))
        \<and> rc' client = Some \<lparr>count = 1 + int (length ts), timestamp = t0\<rparr>
        \<and> w' = ((\<lambda>w. snd (func client w)) ^^ nat (min limit (1 + int (length ts)))) w))
   \<and> (request_counts client = Some j \<and> of_int interval < t - timestamp j \<and> 1 \<le> limit \<longrightarrow>
        rate_limit limit interval func client t (request_counts, w) =
          (Inr (fst (func client w)),
           request_counts(client \<mapsto> \<lparr>count = 1, timestamp = t\<rparr>),
           snd (func client w)))
   \<and> (rejected (fst (rate_limit limit interval func client t (request_counts, w))) \<longrightarrow>
        snd (snd (rate_limit limit interval func client t (request_counts, w))) = w)"
proof (intro conjI impI)
  assume "(request_counts client = None \<or>
       (\<exists>i. request_counts client = Some i \<and> of_int interval < t0 - timestamp i)) \<and>
      (\<forall>t \<in> set ts. t - t0 \<le> of_int interval)"
  then show "\<exists>rs rc' w'.
        serve limit interval func (map (Pair client) (t0 # ts)) (request_counts, w) = (rs, rc', w')
        \<and> length rs = Suc (length ts)
        \<and> (\<forall>k \<le> length ts. admitted (rs ! k) = (int k < limit))
        \<and> (\<forall>k \<le> length ts. rejected (rs ! k) = (limit \<le> int k))
        \<and> rc' client = Some \<lparr>count = 1 + int (length ts), timestamp = t0\<rparr>
        \<and> w' = ((\<lambda>w. snd (func client w)) ^^ nat (min limit (1 + int (length ts)))) w"
    by (intro serve_from_window_start) simp_all
next
  assume "request_counts client = Some j \<and> of_int interval < t - timestamp j \<and> 1 \<le> limit"
  then show "rate_limit limit interval func client t (request_counts, w) =
          (Inr (fst (func client w)),
           request_counts(client \<mapsto> \<lparr>count = 1, timestamp = t\<rparr>),
           snd (func client w))"
    using rate_limit_reset[of request_counts client j interval t limit func w] by simp
next
  assume "rejected (fst (rate_limit limit interval func client t (request_counts, w)))"
  then show "snd (snd (rate_limit limit interval func client t (request_counts, w))) = w"
    by (auto simp: rate_limit_def Let_def rejected_def split: prod.splits if_splits)
qed

theorem rate_limit_admits_limit_calls_per_window_witness:
  "serve 2 60 counting three_calls (Map.empty, 0) =
     ([Inr 0, Inr 1, Inl (HTTPException 429 ''Rate limit exceeded'')],
      [''10.0.0.1'' \<mapsto> \<lparr>count = 3, timestamp = 5\<rparr>], 2)
   \<and> (10 :: real) - 5 \<le> real_of_int 60 \<and> (65 :: real) - 5 \<le> real_of_int 60
   \<and> real_of_int 60 < 66 - 5
   \<and> rate_limit 2 60 counting ''10.0.0.1'' 66
        ([''10.0.0.1'' \<mapsto> \<lparr>count = 3, timestamp = 5\<rparr>], 2) =
      (Inr 2, [''10.0.0.1'' \<mapsto> \<lparr>count = 1, timestamp = 66\<rparr>], 3)
   \<and> rejected (fst (rate_limit 2 60 counting ''10.0.0.1'' 65
        ([''10.0.0.1'' \<mapsto> \<lparr>count = 2, timestamp = 5\<rparr>], 2)))"
  using rate_limit_admits_limit_calls_per_window
      [of Map.empty "''10.0.0.1''" 60 5 "[10, 65]" 2 counting 0]
    rate_limit_admits_limit_calls_per_window
      [of "[''10.0.0.1'' \<mapsto> \<lparr>count = 3, timestamp = 5\<rparr>]" "''10.0.0.1''" 60 5 "[]" 2 counting 2
          "\<lparr>count = 3, timestamp = 5\<rparr>" 66]
    rate_limit_admits_limit_calls_per_window
      [of "[''10.0.0.1'' \<mapsto> \<lparr>count = 2, timestamp = 5\<rparr>]" "''10.0.0.1''" 60 5 "[]" 2 counting 2
          "\<lparr>count = 2, timestamp = 5\<rparr>" 65]
  by (simp add: rate_limit_def three_calls_def counting_def rejected_def Let_def)

section \<open>A rejected client stays rejected until its window runs out\<close>

lemma serve_stays_rejected:
  assumes "rc client = Some i" "limit < count i"
    and "\<forall>p \<in> set calls. fst p = client \<longrightarrow> \<not> snd p - timestamp i > of_int interval"
  shows "\<exists>rs rc' w'. serve limit interval func calls (rc, w) = (rs, rc', w')
     \<and> length rs = length calls
     \<and> (\<forall>k < length calls. fst (calls ! k) = client \<longrightarrow> rejected (rs ! k))
     \<and> rc' client =
         Some (i\<lparr>count := count i + int (length (filter (\<lambda>p. fst p = client) calls))\<rparr>)"
  using assms
proof (induction calls arbitrary: rc i w)
  case Nil
  then show ?case by simp
next
  case (Cons p calls)
  obtain c t where p: "p = (c, t)" by (cases p)
  obtain r rc1 w1 where step: "rate_limit limit interval func c t (rc, w) = (r, rc1, w1)"
    by (cases "rate_limit limit interval func c t (rc, w)")
  show ?case
  proof (cases "c = client")
    case True
    let ?i' = "i\<lparr>count := count i + 1\<rparr>"
    have "\<not> t - timestamp i > of_int interval" using Cons.prems(3) p True by simp
    then have eq: "rate_limit limit interval func client t (rc, w) =
        (Inl (HTTPException 429 ''Rate limit exceeded''), rc(client \<mapsto> ?i'), w)"
      using rate_limit_within[where rc=rc and client=client and i=i and t=t
          and interval=interval and limit=limit and func=func and w=w] Cons.prems(1,2)
      by simp
    then have r: "r = Inl (HTTPException 429 ''Rate limit exceeded'')"
      "rc1 = rc(client \<mapsto> ?i')" "w1 = w"
      using step True by simp_all
    have "rc1 client = Some ?i'" "limit < count ?i'"
      "\<forall>p \<in> set calls. fst p = client \<longrightarrow> \<not> snd p - timestamp ?i' > of_int interval"
      using r Cons.prems by simp_all
    then obtain rs rc' w' where IH:
      "serve limit interval func calls (rc1, w1) = (rs, rc', w')" "length rs = length calls"
      "\<forall>k < length calls. fst (calls ! k) = client \<longrightarrow> rejected (rs ! k)"
      "rc' client =
         Some (?i'\<lparr>count := count ?i' + int (length (filter (\<lambda>p. fst p = client) calls))\<rparr>)"
      using Cons.IH[of rc1 ?i' w1] by blast
    have res: "serve limit interval func (p # calls) (rc, w) = (r # rs, rc', w')"
      using step IH(1) p by simp
    have rej: "\<forall>k < length (p # calls). fst ((p # calls) ! k) = client \<longrightarrow>
        rejected ((r # rs) ! k)"
    proof (intro allI impI)
      fix k assume "k < length (p # calls)" "fst ((p # calls) ! k) = client"
      then show "rejected ((r # rs) ! k)"
        using IH(3) r(1) by (cases k) (auto simp: rejected_def)
    qed
    have cnt: "rc' client =
        Some (i\<lparr>count := count i + int (length (filter (\<lambda>p. fst p = client) (p # calls)))\<rparr>)"
      using IH(4) p True by (simp add: algebra_simps)
    show ?thesis using res IH(2) rej cnt by simp
  next
    case False
    have "rc1 client = rc client"
      using rate_limit_other[where c=c and client=client and limit=limit and interval=interval
          and func=func and t=t and rc=rc and w=w] False step by simp
    then have "rc1 client = Some i" using Cons.prems(1) by simp
    moreover have "\<forall>p \<in> set calls. fst p = client \<longrightarrow>
        \<not> snd p - timestamp i > of_int interval"
      using Cons.prems(3) by simp
    ultimately obtain rs rc' w' where IH:
      "serve limit interval func calls (rc1, w1) = (rs, rc', w')" "length rs = length calls"
      "\<forall>k < length calls. fst (calls ! k) = client \<longrightarrow> rejected (rs ! k)"
      "rc' client =
         Some (i\<lparr>count := count i + int (length (filter (\<lambda>p. fst p = client) calls))\<rparr>)"
      using Cons.IH[of rc1 i w1] Cons.prems(2) by blast
    have res: "serve limit interval func (p # calls) (rc, w) = (r # rs, rc', w')"
      using step IH(1) p by simp
    have rej: "\<forall>k < length (p # calls). fst ((p # calls) ! k) = client \<longrightarrow>
        rejected ((r # rs) ! k)"
    proof (intro allI impI)
      fix k assume "k < length (p # calls)" "fst ((p # calls) ! k) = client"
      then show "rejected ((r # rs) ! k)"
        using IH(3) p False by (cases k) auto
    qed
    have cnt: "rc' client =
        Some (i\<lparr>count := count i + int (length (filter (\<lambda>p. fst p = client) (p # calls)))\<rparr>)"
      using IH(4) p False by simp
    show ?thesis using res IH(2) rej cnt by simp
  qed
qed

text \<open>
  C10. After a rejected call the client's count is above the limit. Every later call by
  that client that arrives no more than \<open>interval\<close> seconds after the window's start is
  rejected too, whatever calls other clients make in between: each such call adds one to
  the count, no call takes one off, and the window's start stays.
\<close>

theorem rejection_persists_within_window:
  "rate_limit limit interval func client t0 st = (r, rc1, w1) \<and> rejected r \<longrightarrow>
     (\<exists>i. rc1 client = Some i \<and> limit < count i \<and>
        (\<forall>calls.
           (\<forall>p \<in> set calls. fst p = client \<longrightarrow> snd p - timestamp i \<le> of_int interval) \<longrightarrow>
           (\<exists>rs rc2 w2.
              serve limit interval func calls (rc1, w1) = (rs, rc2, w2)
              \<and> length rs = length calls
              \<and> (\<forall>k < length calls. fst (calls ! k) = client \<longrightarrow> rejected (rs ! k))
              \<and> rc2 client =
                  Some (i\<lparr>count := count i +
                            int (length (filter (\<lambda>p. fst p = client) calls))\<rparr>))))"
proof
  assume a: "rate_limit limit interval func client t0 st = (r, rc1, w1) \<and> rejected r"
  obtain i where i: "rc1 client = Some i" "limit < count i"
    using rate_limit_rejected_count[OF a[THEN conjunct1] a[THEN conjunct2]] by auto
  have "\<exists>rs rc2 w2.
              serve limit interval func calls (rc1, w1) = (rs, rc2, w2)
              \<and> length rs = length calls
              \<and> (\<forall>k < length calls. fst (calls ! k) = client \<longrightarrow> rejected (rs ! k))
              \<and> rc2 client =
                  Some (i\<lparr>count := count i +
                            int (length (filter (\<lambda>p. fst p = client) calls))\<rparr>)"
    if "\<forall>p \<in> set calls. fst p = client \<longrightarrow> snd p - timestamp i \<le> of_int interval" for calls
    using that i by (intro serve_stays_rejected) (auto simp: not_less)
  with i show "\<exists>i. rc1 client = Some i \<and> limit < count i \<and>
        (\<forall>calls.
           (\<forall>p \<in> set calls. fst p = client \<longrightarrow> snd p - timestamp i \<le> of_int interval) \<longrightarrow>
           (\<exists>rs rc2 w2.
              serve limit interval func calls (rc1, w1) = (rs, rc2, w2)
              \<and> length rs = length calls
              \<and> (\<forall>k < length calls. fst (calls ! k) = client \<longrightarrow> rejected (rs ! k))
              \<and> rc2 client =
                  Some (i\<lparr>count := count i +
                            int (length (filter (\<lambda>p. fst p = client) calls))\<rparr>)))"
    by blast
qed

theorem rejection_persists_within_window_witness:
  "rate_limit 2 60 counting ''10.0.0.1'' 20 (two_requests, 2) =
     (Inl (HTTPException 429 ''Rate limit exceeded''),
      [''10.0.0.1'' \<mapsto> \<lparr>count = 3, timestamp = 5\<rparr>], 2)
   \<and> rejected (Inl (HTTPException 429 ''Rate limit exceeded'') :: error + nat)
   \<and> fst (serve 2 60 counting later_calls
        ([''10.0.0.1'' \<mapsto> \<lparr>count = 3, timestamp = 5\<rparr>], 2)) =
      [Inl (HTTPException 429 ''Rate limit exceeded''), Inr 2,
       Inl (HTTPException 429 ''Rate limit exceeded'')]
   \<and> fst (snd (serve 2 60 counting later_calls
        ([''10.0.0.1'' \<mapsto> \<lparr>count = 3, timestamp = 5\<rparr>], 2))) ''10.0.0.1'' =
      Some \<lparr>count = 5, timestamp = 5\<rparr>"
  using rejection_persists_within_window
      [of 2 60 counting "''10.0.0.1''" 20 "(two_requests, 2)"
          "Inl (HTTPException 429 ''Rate limit exceeded'')"
          "[''10.0.0.1'' \<mapsto> \<lparr>count = 3, timestamp = 5\<rparr>]" 2]
  by (simp add: rate_limit_def two_requests_def later_calls_def counting_def rejected_def Let_def)

section \<open>The cache's time-to-live\<close>

text \<open>
  On a machine whose local clock is UTC the wrapper does what its name says: a lookup
  less than \<open>timeout\<close> seconds after the entry was stored returns the stored value and
  leaves the wrapped function alone, and any other lookup runs it once and stores the
  result with the time of storing.
\<close>

lemma cache_hit_at_utc:
  assumes "cache key = Some entry"
    and "looked_up - cache_timestamp entry < timeout * 1000000"
  shows "cache_with_timeout 0 timeout func key looked_up computed (cache, w) =
           (value entry, cache, w)"
  using assms
  by (simp add: cache_with_timeout_def datetime_now_def timedelta_seconds_def)

lemma cache_miss_at_utc:
  assumes "cache key = None \<or>
      (\<exists>entry. cache key = Some entry \<and> timeout * 1000000 \<le> looked_up - cache_timestamp entry)"
  shows "cache_with_timeout 0 timeout func key looked_up computed (cache, w) =
           (fst (func key w),
            cache(key \<mapsto> \<lparr>value = fst (func key w), cache_timestamp = computed\<rparr>),
            snd (func key w))"
  using assms
  by (auto simp: cache_with_timeout_def datetime_now_def datetime_utcnow_def
      timedelta_seconds_def split: prod.splits option.splits)

text \<open>
  C5 fails on the code where the local clock is not UTC. The entry is stamped with
  \<^verbatim>\<open>datetime.utcnow()\<close> and its age is taken from \<^verbatim>\<open>datetime.now()\<close>, so the age is off by
  the zone's offset. At UTC+05:30 with a time-to-live of 300 seconds, a lookup one second
  after the value was computed runs the wrapped function again (two invocations, a new
  value). At UTC-05:00 a lookup 1000 seconds after the value was computed still returns
  the stored value, with no invocation.
\<close>

theorem cache_ttl_shifted_by_utc_offset:
  "cache_with_timeout 19800000000 300 counting ''realtime'' 0 0 (Map.empty, 0) =
     (0, fresh_entry, 1)
   \<and> cache_with_timeout 19800000000 300 counting ''realtime'' 1000000 1000000 (fresh_entry, 1) =
     (1, [''realtime'' \<mapsto> \<lparr>value = 1, cache_timestamp = 1000000\<rparr>], 2)
   \<and> cache_with_timeout (- 18000000000) 300 counting ''realtime'' 1000000000 1000000000
        (fresh_entry, 1) =
     (0, fresh_entry, 1)"
  by (simp add: cache_with_timeout_def datetime_now_def datetime_utcnow_def
      timedelta_seconds_def counting_def fresh_entry_def)

section \<open>The export of the daily summaries\<close>

lemma get_historical_data_never_serialises_a_row:
  "daily_weather s \<noteq> [] \<Longrightarrow>
   get_historical_data s = Inl (TypeError ''Object of type InstanceState is not JSON serializable'')"
  by (cases "daily_weather s")
    (simp_all add: get_historical_data_def instance_dict_def dumps_value_def or_raise_def)

text \<open>
  C9 fails on the code: with one summary stored, \<^verbatim>\<open>json.dumps\<close> meets the instance state
  in the row's \<^verbatim>\<open>__dict__\<close> and raises; only the empty table is exported.
\<close>

theorem get_historical_data_raises_on_a_stored_summary:
  "get_historical_data (empty_state\<lparr>daily_weather := [pune_summary]\<rparr>) =
     Inl (TypeError ''Object of type InstanceState is not JSON serializable'')
   \<and> get_historical_data empty_state = Inr (JArray [])"
  by (simp add: get_historical_data_def instance_dict_def dumps_value_def or_raise_def
      empty_state_def pune_summary_def)

section \<open>The reading built from the provider's answer\<close>




section \<open>Daily aggregation run twice\<close>

lemma div_eq_iff_int:
  fixes t q d :: int
  assumes "0 < d"
  shows "(t div d = q) = (q * d \<le> t \<and> t < q * d + d)"
proof
  assume "t div d = q"
  then have "t = q * d + t mod d" by (metis div_mult_mod_eq)
  moreover have "0 \<le> t mod d" "t mod d < d" using assms by simp_all
  ultimately show "q * d \<le> t \<and> t < q * d + d" by linarith
next
  assume a: "q * d \<le> t \<and> t < q * d + d"
  define r where "r = t - q * d"
  have "t = d * q + r" "0 \<le> r" "r < d" using a by (simp_all add: r_def)
  then show "t div d = q"
    using assms by (metis add.commute div_pos_pos_trivial div_mult_self2 add_0 less_irrefl)
qed

lemma within_day_iff:
  "(combine_min today \<le> t \<and> t \<le> combine_max today) = (date_of t = today)"
  unfolding combine_min_def combine_max_def date_of_def microseconds_per_day_def
  using div_eq_iff_int[of 86400000000 t today] by auto


lemma primary_key_summary_row: "primary_key (summary_row rows g) = g"
  by (simp add: primary_key_def summary_row_def Let_def)

lemma distinct_aggregate_query:
  "distinct (map primary_key (aggregate_query today tbl))"
  by (simp add: aggregate_query_def Let_def comp_def primary_key_summary_row)

lemma keys_aggregate_query:
  "primary_key ` set (aggregate_query today tbl) =
     (\<lambda>r. (city r, today)) ` {r \<in> set tbl. date_of (dt r) = today}"
  by (auto simp: aggregate_query_def Let_def primary_key_summary_row within_day_iff image_iff)

lemma session_merge_replaces:
  assumes "primary_key r \<in> primary_key ` set tbl"
  shows "map primary_key (session_merge r tbl) = map primary_key tbl"
proof -
  have "map primary_key (map (\<lambda>x. if primary_key x = primary_key r then r else x) tbl) =
      map primary_key tbl"
    by (induction tbl) auto
  with assms show ?thesis by (simp only: session_merge_def if_True)
qed

lemma session_merge_adds:
  assumes "primary_key r \<notin> primary_key ` set tbl"
  shows "session_merge r tbl = tbl @ [r]"
  using assms by (simp add: session_merge_def)

lemma keys_session_merge:
  "primary_key ` set (session_merge r tbl) = insert (primary_key r) (primary_key ` set tbl)"
proof (cases "primary_key r \<in> primary_key ` set tbl")
  case True
  have "primary_key ` set (session_merge r tbl) = set (map primary_key (session_merge r tbl))"
    by simp
  also have "\<dots> = primary_key ` set tbl"
    by (simp only: session_merge_replaces[OF True] set_map)
  finally show ?thesis using True by blast
next
  case False
  then show ?thesis by (simp add: session_merge_adds)
qed

lemma distinct_session_merge:
  assumes "distinct (map primary_key tbl)"
  shows "distinct (map primary_key (session_merge r tbl))"
proof (cases "primary_key r \<in> primary_key ` set tbl")
  case True
  show ?thesis by (simp only: session_merge_replaces[OF True] assms)
next
  case False
  with assms show ?thesis by (simp add: session_merge_adds)
qed

lemma in_session_merge: "r \<in> set (session_merge r tbl)"
  by (auto simp: session_merge_def image_iff)

lemma kept_by_session_merge:
  assumes "x \<in> set tbl" "primary_key x \<noteq> primary_key r"
  shows "x \<in> set (session_merge r tbl)"
  using assms by (auto simp: session_merge_def image_iff)

lemma session_merge_same:
  assumes "r \<in> set tbl" "distinct (map primary_key tbl)"
  shows "session_merge r tbl = tbl"
proof -
  have "\<forall>x \<in> set tbl. primary_key x = primary_key r \<longrightarrow> x = r"
    using assms by (meson distinct_map inj_onD)
  then have "map (\<lambda>x. if primary_key x = primary_key r then r else x) tbl = tbl"
    by (induction tbl) auto
  with assms(1) show ?thesis by (auto simp: session_merge_def)
qed

lemma distinct_fold_merge:
  assumes "distinct (map primary_key tbl)"
  shows "distinct (map primary_key (fold session_merge rows tbl))"
  using assms by (induction rows arbitrary: tbl) (simp_all add: distinct_session_merge)

lemma keys_fold_merge:
  "primary_key ` set (fold session_merge rows tbl) =
     primary_key ` set rows \<union> primary_key ` set tbl"
  by (induction rows arbitrary: tbl) (auto simp: keys_session_merge)

lemma rows_in_fold_merge:
  assumes "distinct (map primary_key rows)" "r \<in> set rows"
  shows "r \<in> set (fold session_merge rows tbl)"
  using assms
proof (induction rows arbitrary: tbl)
  case Nil
  then show ?case by simp
next
  case (Cons a rows)
  have stays: "x \<in> set (fold session_merge rows T)"
    if "x \<in> set T" "primary_key x \<notin> primary_key ` set rows" for x T
    using that
  proof (induction rows arbitrary: T)
    case Nil
    then show ?case by simp
  next
    case (Cons b rows)
    then have "x \<in> set (session_merge b T)"
      by (intro kept_by_session_merge) auto
    with Cons show ?case by simp
  qed
  show ?case
  proof (cases "r = a")
    case True
    have "a \<in> set (session_merge a tbl)" by (rule in_session_merge)
    moreover have "primary_key a \<notin> primary_key ` set rows" using Cons.prems(1) by auto
    ultimately show ?thesis using True stays by simp
  next
    case False
    with Cons show ?thesis by simp
  qed
qed

lemma fold_merge_same:
  assumes "distinct (map primary_key tbl)" "set rows \<subseteq> set tbl"
  shows "fold session_merge rows tbl = tbl"
  using assms by (induction rows) (simp_all add: session_merge_same)

lemma one_row_with_key:
  assumes "distinct (map primary_key tbl)" "k \<in> primary_key ` set tbl"
  shows "length (filter (\<lambda>x. primary_key x = k) tbl) = 1"
  using assms
proof (induction tbl)
  case Nil
  then show ?case by simp
next
  case (Cons a tbl)
  show ?case
  proof (cases "primary_key a = k")
    case True
    have "primary_key a \<notin> primary_key ` set tbl" using Cons.prems(1) by simp
    then have "\<forall>x \<in> set tbl. primary_key x \<noteq> k" using True by (metis imageI)
    then have "filter (\<lambda>x. primary_key x = k) tbl = []"
      by (simp add: filter_empty_conv)
    with True show ?thesis by simp
  next
    case False
    with Cons show ?thesis by auto
  qed
qed

text \<open>
  C3. On a table of summaries that has one row per primary key, running the aggregation a
  second time for the same day, with the readings unchanged, changes nothing: the state
  after two runs is the state after one, so every summary keeps its average, maximum,
  minimum and dominant condition. The table still has one row per primary key, it has
  exactly one row for each (city, date) with a reading on that day, and it holds the
  summaries the query computes.
\<close>

theorem aggregation_twice_is_aggregation_once:
  "distinct (map primary_key (daily_weather s)) \<longrightarrow>
     aggregate_daily_weather today (aggregate_daily_weather today s) =
       aggregate_daily_weather today s
     \<and> distinct (map primary_key (daily_weather (aggregate_daily_weather today s)))
     \<and> (\<forall>r \<in> set (realtime_weather s). date_of (dt r) = today \<longrightarrow>
          length (filter (\<lambda>x. primary_key x = (city r, today))
                    (daily_weather (aggregate_daily_weather today (aggregate_daily_weather today s))))
            = 1)
     \<and> set (aggregate_query today (realtime_weather s))
          \<subseteq> set (daily_weather (aggregate_daily_weather today (aggregate_daily_weather today s)))"
proof
  assume d: "distinct (map primary_key (daily_weather s))"
  let ?rows = "aggregate_query today (realtime_weather s)"
  let ?T = "fold session_merge ?rows (daily_weather s)"
  have s1: "aggregate_daily_weather today s = s\<lparr>daily_weather := ?T\<rparr>"
    by (simp add: aggregate_daily_weather_def)
  have dT: "distinct (map primary_key ?T)" using d by (rule distinct_fold_merge)
  have sub: "set ?rows \<subseteq> set ?T"
    using rows_in_fold_merge[OF distinct_aggregate_query] by blast
  have same: "fold session_merge ?rows ?T = ?T" using dT sub by (rule fold_merge_same)
  have idem: "aggregate_daily_weather today (aggregate_daily_weather today s) =
       aggregate_daily_weather today s"
    by (simp add: aggregate_daily_weather_def same)
  have one: "\<forall>r \<in> set (realtime_weather s). date_of (dt r) = today \<longrightarrow>
          length (filter (\<lambda>x. primary_key x = (city r, today)) ?T) = 1"
  proof (intro ballI impI)
    fix r assume "r \<in> set (realtime_weather s)" "date_of (dt r) = today"
    then have "(city r, today) \<in> primary_key ` set ?rows"
      unfolding keys_aggregate_query by blast
    then have "(city r, today) \<in> primary_key ` set ?T"
      unfolding keys_fold_merge by blast
    with dT show "length (filter (\<lambda>x. primary_key x = (city r, today)) ?T) = 1"
      by (rule one_row_with_key)
  qed
  show "aggregate_daily_weather today (aggregate_daily_weather today s) =
       aggregate_daily_weather today s
     \<and> distinct (map primary_key (daily_weather (aggregate_daily_weather today s)))
     \<and> (\<forall>r \<in> set (realtime_weather s). date_of (dt r) = today \<longrightarrow>
          length (filter (\<lambda>x. primary_key x = (city r, today))
                    (daily_weather (aggregate_daily_weather today (aggregate_daily_weather today s))))
            = 1)
     \<and> set (aggregate_query today (realtime_weather s))
          \<subseteq> set (daily_weather (aggregate_daily_weather today (aggregate_daily_weather today s)))"
    unfolding idem using idem dT one sub by (simp add: s1)
qed


lemma one_day_aggregated:
  "daily_weather (aggregate_daily_weather 20016 one_day) =
   [\<lparr>date = 20016, daily_city = ''Pune'', avg_temp = 25, max_temp = 30, min_temp = 20,
          dom_condition = ''Rain''\<rparr>,
    \<lparr>date = 20016, daily_city = ''Delhi'', avg_temp = 35, max_temp = 35, min_temp = 35,
          dom_condition = ''Clear''\<rparr>]"
  by (simp add: aggregate_daily_weather_def aggregate_query_def summary_row_def session_merge_def
      primary_key_def one_day_def reading_of_def combine_min_def combine_max_def date_of_def
      microseconds_per_day_def Let_def)

theorem aggregation_twice_is_aggregation_once_witness:
  "distinct (map primary_key (daily_weather one_day))
   \<and> daily_weather (aggregate_daily_weather 20016 one_day) =
      [\<lparr>date = 20016, daily_city = ''Pune'', avg_temp = 25, max_temp = 30, min_temp = 20,
         dom_condition = ''Rain''\<rparr>,
       \<lparr>date = 20016, daily_city = ''Delhi'', avg_temp = 35, max_temp = 35, min_temp = 35,
         dom_condition = ''Clear''\<rparr>]
   \<and> aggregate_daily_weather 20016 (aggregate_daily_weather 20016 one_day) =
      aggregate_daily_weather 20016 one_day
   \<and> reading_of ''Pune'' 1729468799999999 30 ''Rain'' \<in> set (realtime_weather one_day)
   \<and> date_of (dt (reading_of ''Pune'' 1729468799999999 30 ''Rain'')) = 20016
   \<and> length (filter (\<lambda>x. primary_key x = (''Pune'', 20016))
        (daily_weather (aggregate_daily_weather 20016 (aggregate_daily_weather 20016 one_day))))
      = 1"
proof -
  have d: "distinct (map primary_key (daily_weather one_day))"
    by (simp add: one_day_def)
  have m: "reading_of ''Pune'' 1729468799999999 30 ''Rain'' \<in> set (realtime_weather one_day)"
    by (simp add: one_day_def)
  have t: "date_of (dt (reading_of ''Pune'' 1729468799999999 30 ''Rain'')) = 20016"
    by (simp add: reading_of_def date_of_def microseconds_per_day_def)
  have c: "city (reading_of ''Pune'' 1729468799999999 30 ''Rain'') = ''Pune''"
    by (simp add: reading_of_def)
  note T = aggregation_twice_is_aggregation_once[of one_day 20016, THEN mp, OF d]
  from T have idem: "aggregate_daily_weather 20016 (aggregate_daily_weather 20016 one_day) =
      aggregate_daily_weather 20016 one_day" by (rule conjunct1)
  from T m t have "length (filter (\<lambda>x. primary_key x =
         (city (reading_of ''Pune'' 1729468799999999 30 ''Rain''), 20016))
        (daily_weather (aggregate_daily_weather 20016 (aggregate_daily_weather 20016 one_day))))
      = 1" by blast
  then have one: "length (filter (\<lambda>x. primary_key x = (''Pune'', 20016))
        (daily_weather (aggregate_daily_weather 20016 (aggregate_daily_weather 20016 one_day))))
      = 1" by (simp only: c)
  show ?thesis using d one_day_aggregated idem m t one by (intro conjI)
qed

end
